theory Spec2Isabelle
  imports Complex_Main "HOL-Library.Word"
begin

section \<open>Values shared by the account and the key-service client\<close>

type_synonym byte = "8 word"

text \<open>A Go \<^verbatim>\<open>uuid.UUID\<close> is a \<^verbatim>\<open>[16]byte\<close>; its zero value is \<^verbatim>\<open>uuid.Nil\<close>.\<close>

type_synonym UUID = "128 word"

text \<open>
  Errors. \<open>ErrorsNew\<close> is an error this package builds itself, with
  \<^verbatim>\<open>errors.New\<close> or \<^verbatim>\<open>fmt.Errorf\<close>, and carries its message. The other
  constructors are errors that a library hands back and the package returns as they are.
  \<open>NilDereference\<close> is the run-time panic of a method call on a nil value.
\<close>

datatype error =
    ErrorsNew string
  | UUIDError string
  | ErrLength
  | InvalidByteError char
  | BLSLengthError
  | BLSDeserializeError
  | URLError string
  | SyntaxError
  | UnmarshalTypeError
  | HTTPError string
  | NilDereference

text \<open>
  BLS keys and signatures are held by their serialised bytes: \<open>Marshal\<close> reads them back.
\<close>

datatype PublicKey = BLSPublicKey (Marshal: "byte list")

datatype Signature = BLSSignature (sig_Marshal: "byte list")

subsection \<open>JSON\<close>

text \<open>
  A JSON value as a document spells it: a number carries the exact value of its literal,
  a string the bytes between its quotes, escapes resolved. A byte string is either the
  text of a JSON value or something that is not JSON: \<^verbatim>\<open>json.Marshal\<close> yields the
  former, and \<^verbatim>\<open>json.Unmarshal\<close> reads it.
\<close>

datatype json =
    JNull
  | JBool bool
  | JNumber rat
  | JString string
  | JArray "json list"
  | JObject "(string \<times> json) list"

datatype bytes = JSONText json | NotJSON string

text \<open>
  Strings. \<^verbatim>\<open>encoding/json\<close> goes through a string rune by rune, when it writes
  one and when it reads one, and puts U+FFFD, the bytes \<^verbatim>\<open>EF BF BD\<close>, in the place
  of every byte at which no UTF-8 sequence starts. \<open>rune_size\<close> is the length of the
  sequence that starts with a byte from \<^verbatim>\<open>0x80\<close> up, as \<^verbatim>\<open>utf8.DecodeRune\<close>
  accepts it, and 0 when there is none; \<open>ValidString\<close> is \<^verbatim>\<open>utf8.ValidString\<close>.
\<close>

definition between :: "nat \<Rightarrow> char \<Rightarrow> nat \<Rightarrow> bool" where
  "between lo c hi = (lo \<le> of_char c \<and> of_char c \<le> hi)"

fun rune_size :: "string \<Rightarrow> nat" where
  "rune_size [] = 0"
| "rune_size (a # cs) =
     (if between 0xC2 a 0xDF then
        (case cs of b # _ \<Rightarrow> if between 0x80 b 0xBF then 2 else 0 | _ \<Rightarrow> 0)
      else if between 0xE0 a 0xEF then
        (case cs of
           b # c # _ \<Rightarrow>
             if between (if a = CHR 0xE0 then 0xA0 else 0x80) b
                  (if a = CHR 0xED then 0x9F else 0xBF)
                \<and> between 0x80 c 0xBF
             then 3 else 0
         | _ \<Rightarrow> 0)
      else if between 0xF0 a 0xF4 then
        (case cs of
           b # c # d # _ \<Rightarrow>
             if between (if a = CHR 0xF0 then 0x90 else 0x80) b
                  (if a = CHR 0xF4 then 0x8F else 0xBF)
                \<and> between 0x80 c 0xBF \<and> between 0x80 d 0xBF
             then 4 else 0
         | _ \<Rightarrow> 0)
      else 0)"

declare rune_size.simps [simp del]

function json_string :: "string \<Rightarrow> string" where
  "json_string [] = []"
| "json_string (a # cs) =
     (if (of_char a :: nat) < 128 then a # json_string cs
      else if rune_size (a # cs) = 0 then [CHR 0xEF, CHR 0xBF, CHR 0xBD] @ json_string cs
      else a # take (rune_size (a # cs) - 1) cs
             @ json_string (drop (rune_size (a # cs) - 1) cs))"
  by pat_completeness auto
termination
  by (relation "measure length") auto

function ValidString :: "string \<Rightarrow> bool" where
  "ValidString [] = True"
| "ValidString (a # cs) =
     (if (of_char a :: nat) < 128 then ValidString cs
      else rune_size (a # cs) \<noteq> 0 \<and> ValidString (drop (rune_size (a # cs) - 1) cs))"
  by pat_completeness auto
termination
  by (relation "measure length") auto

text \<open>The numbers of a value, those inside arrays and objects too.\<close>

primrec numbers :: "json \<Rightarrow> rat list" where
  "numbers JNull = []"
| "numbers (JBool b) = []"
| "numbers (JNumber q) = [q]"
| "numbers (JString s) = []"
| "numbers (JArray js) = concat (map numbers js)"
| "numbers (JObject kvs) = concat (map snd (map (map_prod id numbers) kvs))"

subsection \<open>Hexadecimal text\<close>

text \<open>\<^verbatim>\<open>fmt.Sprintf("%x", b)\<close> on a byte slice: two lower-case digits for each byte.\<close>

definition hexdigit :: "nat \<Rightarrow> char" where
  "hexdigit n = (if n < 10 then char_of (48 + n) else char_of (87 + n))"

definition Sprintf_x :: "byte list \<Rightarrow> string" where
  "Sprintf_x bs = concat (map (\<lambda>b. [hexdigit (unat b div 16), hexdigit (unat b mod 16)]) bs)"

text \<open>\<^verbatim>\<open>encoding/hex\<close>: \<^verbatim>\<open>fromHexChar\<close> and \<^verbatim>\<open>DecodeString\<close>, which stops at the
  first character that is no digit, and reports an odd length after that.\<close>

definition fromHexChar :: "char \<Rightarrow> nat option" where
  "fromHexChar c =
     (let n = (of_char c :: nat) in
      if 48 \<le> n \<and> n \<le> 57 then Some (n - 48)
      else if 97 \<le> n \<and> n \<le> 102 then Some (n - 97 + 10)
      else if 65 \<le> n \<and> n \<le> 70 then Some (n - 65 + 10)
      else None)"

fun DecodeString :: "string \<Rightarrow> error + byte list" where
  "DecodeString [] = Inr []"
| "DecodeString [c] =
     (case fromHexChar c of None \<Rightarrow> Inl (InvalidByteError c) | Some _ \<Rightarrow> Inl ErrLength)"
| "DecodeString (c # d # cs) =
     (case fromHexChar c of
        None \<Rightarrow> Inl (InvalidByteError c)
      | Some a \<Rightarrow>
          (case fromHexChar d of
             None \<Rightarrow> Inl (InvalidByteError d)
           | Some b \<Rightarrow>
               (case DecodeString cs of
                  Inl e \<Rightarrow> Inl e
                | Inr bs \<Rightarrow> Inr (word_of_nat (a * 16 + b) # bs))))"

subsection \<open>Libraries the package calls\<close>

text \<open>
  What the package takes from \<^verbatim>\<open>google/uuid\<close>, \<^verbatim>\<open>net/url\<close>, \<^verbatim>\<open>strconv\<close>, the
  BLS library and the platform. \<open>'l\<close> is the type of a parsed URL. \<open>url_ParseRef u ref\<close>
  is \<^verbatim>\<open>u.Parse(ref)\<close>. \<open>g1_point\<close> and \<open>g2_point\<close> say whether bytes deserialise to
  a point of the curve group of public keys and of signatures. \<open>float64_round\<close> is the
  \<^verbatim>\<open>float64\<close> nearest to a number that is none itself, and \<open>None\<close> when the number is
  out of the range of \<^verbatim>\<open>float64\<close>. \<open>uint_oor\<close> is the result of converting to
  \<^verbatim>\<open>uint\<close> a float that \<^verbatim>\<open>uint\<close> cannot hold, which Go leaves to the
  implementation.
\<close>

record 'l lib =
  uuid_Parse :: "string \<Rightarrow> string + UUID"
  uuid_String :: "UUID \<Rightarrow> string"
  url_Parse :: "string \<Rightarrow> string + 'l"
  url_String :: "'l \<Rightarrow> string"
  url_IsAbs :: "'l \<Rightarrow> bool"
  url_ParseRef :: "'l \<Rightarrow> string \<Rightarrow> string + 'l"
  g1_point :: "byte list \<Rightarrow> bool"
  g2_point :: "byte list \<Rightarrow> bool"
  float64_round :: "rat \<Rightarrow> rat option"
  uint_oor :: "rat \<Rightarrow> nat"

text \<open>
  \<^verbatim>\<open>etypes.BLSPublicKeyFromBytes\<close> and \<^verbatim>\<open>etypes.BLSSignatureFromBytes\<close> of
  \<^verbatim>\<open>go-eth2-types\<close>: a public key is 48 bytes that deserialise to a point.
\<close>

definition BLSPublicKeyFromBytes :: "'l lib \<Rightarrow> byte list \<Rightarrow> error + PublicKey" where
  "BLSPublicKeyFromBytes L bs =
     (if length bs \<noteq> 48 then Inl BLSLengthError
      else if \<not> g1_point L bs then Inl BLSDeserializeError
      else Inr (BLSPublicKey bs))"

definition BLSSignatureFromBytes :: "'l lib \<Rightarrow> byte list \<Rightarrow> error + Signature" where
  "BLSSignatureFromBytes L bs =
     (if \<not> g2_point L bs then Inl BLSDeserializeError else Inr (BLSSignature bs))"

text \<open>The conversion \<^verbatim>\<open>uint(f)\<close> of a \<^verbatim>\<open>float64\<close>: the fraction is discarded.\<close>

definition uint_of_float64 :: "'l lib \<Rightarrow> rat \<Rightarrow> nat" where
  "uint_of_float64 L q = (if 0 \<le> q \<and> q < 2 ^ 64 then nat \<lfloor>q\<rfloor> else uint_oor L q)"

text \<open>
  \<^verbatim>\<open>strconv.ParseFloat(s, 64)\<close>, by which \<^verbatim>\<open>encoding/json\<close> reads a number into an
  \<^verbatim>\<open>interface{}\<close>: the nearest \<^verbatim>\<open>float64\<close>. A multiple of 1/1024 that is less
  than \<open>2 ^ 43\<close> in size is a \<^verbatim>\<open>float64\<close> itself, and is the result; any other
  number is left to the library.
\<close>

definition exact64 :: "rat \<Rightarrow> bool" where
  "exact64 q = (of_int \<lfloor>q * 1024\<rfloor> = q * 1024 \<and> \<bar>q\<bar> * 1024 < 2 ^ 53)"

definition ParseFloat :: "'l lib \<Rightarrow> rat \<Rightarrow> rat option" where
  "ParseFloat L q = (if exact64 q then Some q else float64_round L q)"

text \<open>
  The Go value that \<^verbatim>\<open>json.Unmarshal\<close> stores in an \<^verbatim>\<open>interface{}\<close> for a JSON
  value: a number as its \<^verbatim>\<open>float64\<close> (nil when it is out of range, which is an error
  of the whole call), a string and a key of an object with U+FFFD for invalid bytes.
\<close>

primrec Go_value :: "'l lib \<Rightarrow> json \<Rightarrow> json" where
  "Go_value L JNull = JNull"
| "Go_value L (JBool b) = JBool b"
| "Go_value L (JNumber q) = (case ParseFloat L q of Some f \<Rightarrow> JNumber f | None \<Rightarrow> JNull)"
| "Go_value L (JString s) = JString (json_string s)"
| "Go_value L (JArray js) = JArray (map (Go_value L) js)"
| "Go_value L (JObject kvs) = JObject (map (map_prod json_string (Go_value L)) kvs)"

text \<open>
  \<^verbatim>\<open>json.Unmarshal(data, &v)\<close> with \<^verbatim>\<open>v map[string]interface{}\<close>: an object
  fills the map with the Go values of its members, a later member winning over an
  earlier one of the same key, and the call fails with a type error when a number of
  the object is out of the range of \<^verbatim>\<open>float64\<close>; \<^verbatim>\<open>null\<close> leaves the map nil,
  where every lookup misses; any other value is a type error.
\<close>

definition Unmarshal_map :: "'l lib \<Rightarrow> bytes \<Rightarrow> error + (string \<rightharpoonup> json)" where
  "Unmarshal_map L data =
     (case data of
        NotJSON _ \<Rightarrow> Inl SyntaxError
      | JSONText j \<Rightarrow>
          (case j of
             JObject kvs \<Rightarrow>
               if list_ex (\<lambda>q. ParseFloat L q = None) (numbers j) then Inl UnmarshalTypeError
               else Inr (map_of (rev (map (map_prod json_string (Go_value L)) kvs)))
           | JNull \<Rightarrow> Inr Map.empty
           | _ \<Rightarrow> Inl UnmarshalTypeError))"


text \<open>A \<^verbatim>\<open>[]byte\<close> read as a string, as \<^verbatim>\<open>fmt.Sprintf("%s", payload)\<close> does.\<close>

definition Sprintf_s :: "byte list \<Rightarrow> string" where
  "Sprintf_s bs = map (\<lambda>b. char_of (unat b)) bs"

text \<open>The type assertions \<^verbatim>\<open>val.(string)\<close> and \<^verbatim>\<open>val.(float64)\<close> on a decoded value.\<close>

definition as_string :: "json \<Rightarrow> string option" where
  "as_string j = (case j of JString s \<Rightarrow> Some s | _ \<Rightarrow> None)"

definition as_float64 :: "json \<Rightarrow> rat option" where
  "as_float64 j = (case j of JNumber q \<Rightarrow> Some q | _ \<Rightarrow> None)"

subsection \<open>The network\<close>

text \<open>
  The outside world of the client: the requests sent so far, oldest first, and the
  server, which answers a request with a body, or fails before or while the body is read.
  \<^verbatim>\<open>http.Get\<close> and \<^verbatim>\<open>http.Post\<close> send one request each. The status code of an
  answer is not represented: the client never looks at it.
\<close>

datatype verb = GET | POST

record request =
  rq_verb :: verb
  rq_url :: string
  rq_contentType :: string
  rq_body :: "bytes option"

datatype reply = RequestFails string | ReadFails string | Body bytes

record world =
  requests :: "request list"
  server :: "request \<Rightarrow> reply"

definition send :: "request \<Rightarrow> world \<Rightarrow> reply \<times> world" where
  "send rq w = (server w rq, w\<lparr>requests := requests w @ [rq]\<rparr>)"

definition http_Get :: "string \<Rightarrow> world \<Rightarrow> reply \<times> world" where
  "http_Get u w =
     send \<lparr>rq_verb = GET, rq_url = u, rq_contentType = [], rq_body = None\<rparr> w"

definition http_Post :: "string \<Rightarrow> string \<Rightarrow> bytes \<Rightarrow> world \<Rightarrow> reply \<times> world" where
  "http_Post u ct body w =
     send \<lparr>rq_verb = POST, rq_url = u, rq_contentType = ct, rq_body = Some body\<rparr> w"

section \<open>The account (account.go)\<close>

text \<open>
  The key service as account.go uses it: a struct with the field \<open>URL\<close>, built by
  \<^verbatim>\<open>newKeyService(raw string)\<close>, which parses the string and checks nothing else.
\<close>

record 'l keyService_raw =
  URL :: 'l

definition newKeyService_raw :: "'l lib \<Rightarrow> string \<Rightarrow> error + 'l keyService_raw" where
  "newKeyService_raw L raw =
     (case url_Parse L raw of
        Inl e \<Rightarrow> Inl (URLError e)
      | Inr u \<Rightarrow> Inr \<lparr>URL = u\<rparr>)"

datatype encryptor = keystorev4_New | OtherEncryptor string

text \<open>
  Modelled from the spec: the wallet struct, whose file is not among the sources. Of the
  wallet, which the spec gives a reference to an Encryptor, only that reference is
  represented: it is all that \<^verbatim>\<open>deserializeAccount\<close> reads.
\<close>

record wallet =
  w_encryptor :: "encryptor option"

text \<open>
  The account struct. A nil interface or pointer is \<open>None\<close>. The mutex is not a field
  here: every operation takes it on entry and releases it on return, so in a sequential
  run each operation is one step.
\<close>

record 'l account =
  acct_id :: UUID
  name :: string
  publicKey :: "PublicKey option"
  version :: nat
  wallet :: "wallet option"
  encryptor :: "encryptor option"
  unlocked :: bool
  keyService :: "'l keyService_raw option"

definition newAccount :: "'l account" where
  "newAccount =
     \<lparr>acct_id = 0, name = [], publicKey = None, version = 0, wallet = None,
      encryptor = None, unlocked = False, keyService = None\<rparr>"

definition MarshalJSON :: "'l lib \<Rightarrow> 'l account \<Rightarrow> error + bytes" where
  "MarshalJSON L a =
     (case publicKey a of
        None \<Rightarrow> Inl NilDereference
      | Some pk \<Rightarrow>
          (case keyService a of
             None \<Rightarrow> Inl NilDereference
           | Some ks \<Rightarrow>
               Inr (JSONText (JObject
                 [(''keyService'', JString (json_string (url_String L (URL ks)))),
                  (''name'', JString (json_string (name a))),
                  (''pubkey'', JString (json_string (Sprintf_x (Marshal pk)))),
                  (''uuid'', JString (json_string (uuid_String L (acct_id a)))),
                  (''version'', JNumber (of_nat (version a)))]))))"

text \<open>The blocks of \<^verbatim>\<open>UnmarshalJSON\<close>, in the order of the source.\<close>

definition unmarshal_id :: "'l lib \<Rightarrow> (string \<rightharpoonup> json) \<Rightarrow> 'l account \<Rightarrow> error + 'l account" where
  "unmarshal_id L v a =
     (case v ''uuid'' of
        Some val \<Rightarrow>
          (case as_string val of
             None \<Rightarrow> Inl (ErrorsNew ''account ID invalid'')
           | Some idStr \<Rightarrow>
               (case uuid_Parse L idStr of
                  Inl e \<Rightarrow> Inl (UUIDError e)
                | Inr i \<Rightarrow> Inr (a\<lparr>acct_id := i\<rparr>)))
      | None \<Rightarrow>
          (case v ''id'' of
             Some val \<Rightarrow>
               (case as_string val of
                  None \<Rightarrow> Inl (ErrorsNew ''account ID invalid'')
                | Some idStr \<Rightarrow>
                    (case uuid_Parse L idStr of
                       Inl e \<Rightarrow> Inl (UUIDError e)
                     | Inr i \<Rightarrow> Inr (a\<lparr>acct_id := i\<rparr>)))
           | None \<Rightarrow> Inl (ErrorsNew ''account ID missing'')))"

definition unmarshal_name :: "(string \<rightharpoonup> json) \<Rightarrow> 'l account \<Rightarrow> error + 'l account" where
  "unmarshal_name v a =
     (case v ''name'' of
        Some val \<Rightarrow>
          (case as_string val of
             None \<Rightarrow> Inl (ErrorsNew ''account name invalid'')
           | Some n \<Rightarrow> Inr (a\<lparr>name := n\<rparr>))
      | None \<Rightarrow> Inl (ErrorsNew ''account name missing''))"

definition unmarshal_pubkey :: "'l lib \<Rightarrow> (string \<rightharpoonup> json) \<Rightarrow> 'l account \<Rightarrow> error + 'l account" where
  "unmarshal_pubkey L v a =
     (case v ''pubkey'' of
        Some val \<Rightarrow>
          (case as_string val of
             None \<Rightarrow> Inl (ErrorsNew ''account pubkey invalid'')
           | Some s \<Rightarrow>
               (case DecodeString s of
                  Inl e \<Rightarrow> Inl e
                | Inr bs \<Rightarrow>
                    (case BLSPublicKeyFromBytes L bs of
                       Inl e \<Rightarrow> Inl e
                     | Inr pk \<Rightarrow> Inr (a\<lparr>publicKey := Some pk\<rparr>))))
      | None \<Rightarrow> Inl (ErrorsNew ''account pubkey missing''))"

definition unmarshal_version :: "'l lib \<Rightarrow> (string \<rightharpoonup> json) \<Rightarrow> 'l account \<Rightarrow> error + 'l account" where
  "unmarshal_version L v a =
     (case v ''version'' of
        Some val \<Rightarrow>
          (case as_float64 val of
             None \<Rightarrow> Inl (ErrorsNew ''account version invalid'')
           | Some q \<Rightarrow> Inr (a\<lparr>version := uint_of_float64 L q\<rparr>))
      | None \<Rightarrow> Inl (ErrorsNew ''account version missing''))"

definition select_encryptor :: "'l account \<Rightarrow> error + 'l account" where
  "select_encryptor a =
     (if version a = 4 then Inr (a\<lparr>encryptor := Some keystorev4_New\<rparr>)
      else Inl (ErrorsNew ''unsupported keystore version''))"

definition unmarshal_keyService :: "'l lib \<Rightarrow> (string \<rightharpoonup> json) \<Rightarrow> 'l account \<Rightarrow> error + 'l account" where
  "unmarshal_keyService L v a =
     (case v ''keyService'' of
        Some val \<Rightarrow>
          (case as_string val of
             None \<Rightarrow> Inl (ErrorsNew ''account keyService invalid'')
           | Some u \<Rightarrow>
               (case newKeyService_raw L u of
                  Inl e \<Rightarrow> Inl e
                | Inr ks \<Rightarrow> Inr (a\<lparr>keyService := Some ks\<rparr>)))
      | None \<Rightarrow> Inl (ErrorsNew ''account keyService missing''))"

text \<open>
  \<^verbatim>\<open>UnmarshalJSON\<close> on the receiver \<open>a\<close>. On an error the receiver, filled in part,
  is given up: \<^verbatim>\<open>deserializeAccount\<close> returns nil then.
\<close>

definition UnmarshalJSON :: "'l lib \<Rightarrow> 'l account \<Rightarrow> bytes \<Rightarrow> error + 'l account" where
  "UnmarshalJSON L a data =
     (case Unmarshal_map L data of
        Inl e \<Rightarrow> Inl e
      | Inr v \<Rightarrow>
     (case unmarshal_id L v a of
        Inl e \<Rightarrow> Inl e
      | Inr a1 \<Rightarrow>
     (case unmarshal_name v a1 of
        Inl e \<Rightarrow> Inl e
      | Inr a2 \<Rightarrow>
     (case unmarshal_pubkey L v a2 of
        Inl e \<Rightarrow> Inl e
      | Inr a3 \<Rightarrow>
     (case unmarshal_version L v a3 of
        Inl e \<Rightarrow> Inl e
      | Inr a4 \<Rightarrow>
     (case select_encryptor a4 of
        Inl e \<Rightarrow> Inl e
      | Inr a5 \<Rightarrow> unmarshal_keyService L v a5))))))"

definition deserializeAccount :: "'l lib \<Rightarrow> wallet \<Rightarrow> bytes \<Rightarrow> error + 'l account" where
  "deserializeAccount L w data =
     UnmarshalJSON L (newAccount\<lparr>wallet := Some w, encryptor := w_encryptor w\<rparr>) data"

definition Lock :: "'l account \<Rightarrow> 'l account" where
  "Lock a = a\<lparr>unlocked := False\<rparr>"

definition Unlock :: "'l account \<Rightarrow> byte list \<Rightarrow> error option \<times> 'l account" where
  "Unlock a passphrase = (None, a\<lparr>unlocked := True\<rparr>)"

definition IsUnlocked :: "'l account \<Rightarrow> bool" where
  "IsUnlocked a = unlocked a"

definition Path :: "'l account \<Rightarrow> string" where
  "Path a = []"

text \<open>
  \<^verbatim>\<open>Sign\<close>. The state is the account and the network. \<open>ksSign\<close> is the \<^verbatim>\<open>Sign\<close>
  method of the bound key service, called as the source calls it, with the account's
  public key and the data; the \<open>domain\<close> argument appears nowhere in the body.
\<close>

definition Sign ::
  "('l keyService_raw \<Rightarrow> PublicKey option \<Rightarrow> byte list \<Rightarrow> world \<Rightarrow> (error + 's) \<times> world)
   \<Rightarrow> byte list \<Rightarrow> 64 word \<Rightarrow> 'l account \<times> world \<Rightarrow> (error + 's) \<times> 'l account \<times> world" where
  "Sign ksSign data domain st =
     (case st of (a, w) \<Rightarrow>
        if \<not> IsUnlocked a then (Inl (ErrorsNew ''cannot sign when account is locked''), a, w)
        else
          (case keyService a of
             None \<Rightarrow> (Inl NilDereference, a, w)
           | Some ks \<Rightarrow>
               (case ksSign ks (publicKey a) data w of (r, w') \<Rightarrow> (r, a, w'))))"


section \<open>The key-service client\<close>

subsection \<open>Decoding an answer\<close>

text \<open>
  \<^verbatim>\<open>json.Unmarshal(body, &v)\<close> into a struct with one string field tagged \<open>key\<close>
  (\<^verbatim>\<open>publicKeyResponse\<close> with \<^verbatim>\<open>"pk"\<close>, \<^verbatim>\<open>signResponse\<close> with \<^verbatim>\<open>"sign"\<close>):
  the members of the object are gone through in order; a member whose key is the tag
  under case folding stores its string in the field, \<^verbatim>\<open>null\<close> stores nothing, and any
  other value is a type error; other members are skipped. A field no member stores
  stays empty. Case folding takes an ASCII letter to its lower case, U+017F (the bytes
  \<^verbatim>\<open>C5 BF\<close>) to \<^verbatim>\<open>s\<close> and U+212A (the bytes \<^verbatim>\<open>E2 84 AA\<close>) to \<^verbatim>\<open>k\<close>.
\<close>

definition lower :: "char \<Rightarrow> char" where
  "lower c = (let n = (of_char c :: nat) in if 65 \<le> n \<and> n \<le> 90 then char_of (n + 32) else c)"

fun foldName :: "string \<Rightarrow> string" where
  "foldName (a # b # c # cs) =
     (if a = CHR 0xE2 \<and> b = CHR 0x84 \<and> c = CHR 0xAA then CHR ''k'' # foldName cs
      else if a = CHR 0xC5 \<and> b = CHR 0xBF then CHR ''s'' # foldName (c # cs)
      else lower a # foldName (b # c # cs))"
| "foldName [a, b] = (if a = CHR 0xC5 \<and> b = CHR 0xBF then ''s'' else [lower a, lower b])"
| "foldName [a] = [lower a]"
| "foldName [] = []"

fun store_members :: "string \<Rightarrow> (string \<times> json) list \<Rightarrow> string \<Rightarrow> error + string" where
  "store_members key [] cur = Inr cur"
| "store_members key ((k, v) # kvs) cur =
     (if foldName (json_string k) \<noteq> key then store_members key kvs cur
      else (case v of
              JString s \<Rightarrow> store_members key kvs (json_string s)
            | JNull \<Rightarrow> store_members key kvs cur
            | _ \<Rightarrow> Inl UnmarshalTypeError))"

definition Unmarshal_field :: "string \<Rightarrow> bytes \<Rightarrow> error + string" where
  "Unmarshal_field key data =
     (case data of
        NotJSON _ \<Rightarrow> Inl SyntaxError
      | JSONText j \<Rightarrow>
          (case j of
             JObject kvs \<Rightarrow> store_members key kvs []
           | JNull \<Rightarrow> Inr []
           | _ \<Rightarrow> Inl UnmarshalTypeError))"

text \<open>\<^verbatim>\<open>json.Marshal\<close> of a \<^verbatim>\<open>signRequest{Payload, Domain}\<close>, fields in struct order;
  the payload is written as \<^verbatim>\<open>json.Marshal\<close> writes a string.\<close>

definition Marshal_signRequest :: "string \<Rightarrow> 64 word \<Rightarrow> bytes" where
  "Marshal_signRequest payload domain =
     JSONText (JObject
       [(''payload'', JString (json_string payload)),
        (''domain'', JNumber (of_nat (unat domain)))])"

text \<open>
  The end of both \<^verbatim>\<open>Sign\<close> methods, from the answer of \<^verbatim>\<open>http.Post\<close> on.
\<close>

definition read_signature :: "'l lib \<Rightarrow> reply \<Rightarrow> error + Signature" where
  "read_signature L rep =
     (case rep of
        RequestFails e \<Rightarrow> Inl (HTTPError e)
      | ReadFails e \<Rightarrow> Inl (HTTPError e)
      | Body body \<Rightarrow>
          (case Unmarshal_field ''sign'' body of
             Inl e \<Rightarrow> Inl e
           | Inr s \<Rightarrow>
               if s = [] then Inl (ErrorsNew ''missing signature'')
               else
                 (case DecodeString s of
                    Inl e \<Rightarrow> Inl e
                  | Inr bs \<Rightarrow> BLSSignatureFromBytes L bs)))"

subsection \<open>The client with a cached public key\<close>

record 'l keyService =
  ks_url :: 'l
  ks_publicKey :: "PublicKey option"
  ks_version :: nat

definition newKeyService :: "'l lib \<Rightarrow> 'l \<Rightarrow> error + 'l keyService" where
  "newKeyService L u =
     (if \<not> url_IsAbs L u
      then Inl (ErrorsNew (''keyService URL '' @ [CHR 0x27] @ url_String L u @ [CHR 0x27] @ '' is not absolute''))
      else Inr \<lparr>ks_url = u, ks_publicKey = None, ks_version = 0\<rparr>)"

text \<open>
  \<^verbatim>\<open>PublicKey\<close>: the request to the server is commented out in the source; what is
  left copies the key the client holds, and drops the error of the copy. The result is
  the key, which is nil when the copy failed, and the network as it was.
\<close>

definition keyService_PublicKey ::
  "'l lib \<Rightarrow> 'l keyService \<Rightarrow> world \<Rightarrow> (error + PublicKey option) \<times> world" where
  "keyService_PublicKey L ks w =
     (case ks_publicKey ks of
        None \<Rightarrow> (Inl NilDereference, w)
      | Some pk \<Rightarrow>
          (case BLSPublicKeyFromBytes L (Marshal pk) of
             Inl _ \<Rightarrow> (Inr None, w)
           | Inr localKeyCopy \<Rightarrow> (Inr (Some localKeyCopy), w)))"


subsection \<open>The client that holds a URL only\<close>

record 'l keyService_urlonly =
  uo_URL :: 'l

definition newKeyService_urlonly :: "'l lib \<Rightarrow> 'l \<Rightarrow> error + 'l keyService_urlonly" where
  "newKeyService_urlonly L u =
     (if \<not> url_IsAbs L u
      then Inl (ErrorsNew (''keyService URL '' @ [CHR 0x27] @ url_String L u @ [CHR 0x27] @ '' is not absolute''))
      else Inr \<lparr>uo_URL = u\<rparr>)"

definition PublicKey_urlonly ::
  "'l lib \<Rightarrow> 'l keyService_urlonly \<Rightarrow> world \<Rightarrow> (error + PublicKey) \<times> world" where
  "PublicKey_urlonly L ks w =
     (case http_Get (url_String L (uo_URL ks)) w of
        (rep, w1) \<Rightarrow>
          (case rep of
             RequestFails e \<Rightarrow> (Inl (HTTPError e), w1)
           | ReadFails e \<Rightarrow> (Inl (HTTPError e), w1)
           | Body body \<Rightarrow>
               (case Unmarshal_field ''pk'' body of
                  Inl e \<Rightarrow> (Inl e, w1)
                | Inr s \<Rightarrow>
                    if s = [] then (Inl (ErrorsNew ''missing public key''), w1)
                    else
                      (case DecodeString s of
                         Inl e \<Rightarrow> (Inl e, w1)
                       | Inr bs \<Rightarrow> (BLSPublicKeyFromBytes L bs, w1)))))"

definition Sign_urlonly ::
  "'l lib \<Rightarrow> 'l keyService_urlonly \<Rightarrow> byte list \<Rightarrow> 64 word \<Rightarrow> world \<Rightarrow> (error + Signature) \<times> world" where
  "Sign_urlonly L ks payload domain w =
     (let data = Marshal_signRequest (Sprintf_s payload) domain in
      case url_ParseRef L (uo_URL ks) ''sign'' of
        Inl e \<Rightarrow> (Inl (URLError e), w)
      | Inr u \<Rightarrow>
          (case http_Post (url_String L u) ''application/json'' data w of
             (rep, w1) \<Rightarrow> (read_signature L rep, w1)))"

section \<open>Values for the worked cases\<close>

text \<open>
  The public key and the signature of the repository's tests, as hexadecimal text and as
  bytes, and a UUID.
\<close>

definition test_pubkey_hex :: string where
  "test_pubkey_hex =
     ''a99a76ed7796f7be22d5b7e85deeb7c5677e88e511e0b337618f8c4eb61349b4bf2d153f649f7b53359fe8b94a38e44c''"

definition test_pubkey_bytes :: "byte list" where
  "test_pubkey_bytes = [
      0xa9, 0x9a, 0x76, 0xed, 0x77, 0x96, 0xf7, 0xbe, 0x22, 0xd5, 0xb7, 0xe8,
      0x5d, 0xee, 0xb7, 0xc5, 0x67, 0x7e, 0x88, 0xe5, 0x11, 0xe0, 0xb3, 0x37,
      0x61, 0x8f, 0x8c, 0x4e, 0xb6, 0x13, 0x49, 0xb4, 0xbf, 0x2d, 0x15, 0x3f,
      0x64, 0x9f, 0x7b, 0x53, 0x35, 0x9f, 0xe8, 0xb9, 0x4a, 0x38, 0xe4, 0x4c]"

definition test_sig_hex :: string where
  "test_sig_hex =
     ''b27173efced932d1e0decdbb872512d4d123835629ffd907211ffe74a86a05dc6be4a8c15f886a48daed4a975f5fffe9153297bcda99adf84b351a8d514ea7f0607ff2e678c1600381fa6beb5fbe1a864924a3e69bb938caeef2de673988265e''"

definition test_sig_bytes :: "byte list" where
  "test_sig_bytes = [
      0xb2, 0x71, 0x73, 0xef, 0xce, 0xd9, 0x32, 0xd1, 0xe0, 0xde, 0xcd, 0xbb,
      0x87, 0x25, 0x12, 0xd4, 0xd1, 0x23, 0x83, 0x56, 0x29, 0xff, 0xd9, 0x07,
      0x21, 0x1f, 0xfe, 0x74, 0xa8, 0x6a, 0x05, 0xdc, 0x6b, 0xe4, 0xa8, 0xc1,
      0x5f, 0x88, 0x6a, 0x48, 0xda, 0xed, 0x4a, 0x97, 0x5f, 0x5f, 0xff, 0xe9,
      0x15, 0x32, 0x97, 0xbc, 0xda, 0x99, 0xad, 0xf8, 0x4b, 0x35, 0x1a, 0x8d,
      0x51, 0x4e, 0xa7, 0xf0, 0x60, 0x7f, 0xf2, 0xe6, 0x78, 0xc1, 0x60, 0x03,
      0x81, 0xfa, 0x6b, 0xeb, 0x5f, 0xbe, 0x1a, 0x86, 0x49, 0x24, 0xa3, 0xe6,
      0x9b, 0xb9, 0x38, 0xca, 0xee, 0xf2, 0xde, 0x67, 0x39, 0x88, 0x26, 0x5e]"

definition test_uuid_string :: string where
  "test_uuid_string = ''c9958061-63d4-4a80-bcf3-25f3dda22340''"

definition test_uuid :: UUID where
  "test_uuid = 0xc995806163d44a80bcf325f3dda22340"

text \<open>
  A library to run the worked cases with. A URL is held as the string it was parsed
  from, and is printed with \<^verbatim>\<open>%20\<close> for every space, as \<^verbatim>\<open>net/url\<close> prints a
  space of a path; it is absolute when a scheme and a colon come first, and a reference
  is resolved against the scheme and host. The one UUID is \<open>test_uuid\<close>, the one point
  of either group the test key and the test signature; no number is read but those
  that are a \<^verbatim>\<open>float64\<close> as they stand, and a float out of range converts to 0.
\<close>

definition test_escape :: "string \<Rightarrow> string" where
  "test_escape u = concat (map (\<lambda>c. if c = CHR '' '' then ''%20'' else [c]) u)"

definition test_IsAbs :: "string \<Rightarrow> bool" where
  "test_IsAbs u = (takeWhile (\<lambda>c. c \<noteq> CHR '':'') u \<noteq> u \<and> takeWhile (\<lambda>c. c \<noteq> CHR '':'') u \<noteq> [])"

definition test_lib :: "string lib" where
  "test_lib =
     \<lparr>uuid_Parse = (\<lambda>s. if s = test_uuid_string then Inr test_uuid else Inl ''invalid UUID format''),
      uuid_String = (\<lambda>u. if u = test_uuid then test_uuid_string
                          else ''00000000-0000-0000-0000-000000000000''),
      url_Parse = Inr,
      url_String = test_escape,
      url_IsAbs = test_IsAbs,
      url_ParseRef = (\<lambda>u r. if test_IsAbs u then Inr (u @ r) else Inl ''relative base''),
      g1_point = (\<lambda>bs. bs = test_pubkey_bytes),
      g2_point = (\<lambda>bs. bs = test_sig_bytes),
      float64_round = (\<lambda>q. None),
      uint_oor = (\<lambda>q. 0)\<rparr>"

definition test_wallet :: wallet where
  "test_wallet = \<lparr>w_encryptor = Some (OtherEncryptor ''wallet'')\<rparr>"

definition test_account :: "string account" where
  "test_account =
     \<lparr>acct_id = test_uuid, name = ''Account 1'', publicKey = Some (BLSPublicKey test_pubkey_bytes),
      version = 4, wallet = Some test_wallet, encryptor = Some keystorev4_New,
      unlocked = False, keyService = Some \<lparr>URL = ''http://localhost:8080''\<rparr>\<rparr>"

text \<open>A server that answers nothing useful, and a network on which nothing was sent.\<close>

definition test_world :: world where
  "test_world = \<lparr>requests = [], server = (\<lambda>rq. RequestFails ''connection refused'')\<rparr>"

text \<open>
  A key-service \<^verbatim>\<open>Sign\<close> for the account to call: it posts what it was given, the
  key in hexadecimal and the data, to the service's URL.
\<close>

definition test_ksSign ::
  "string keyService_raw \<Rightarrow> PublicKey option \<Rightarrow> byte list \<Rightarrow> world \<Rightarrow> (error + Signature) \<times> world" where
  "test_ksSign ks key payload w =
     (case key of
        None \<Rightarrow> (Inl NilDereference, w)
      | Some k \<Rightarrow>
          (case http_Post (URL ks @ ''/'' @ Sprintf_x (Marshal k)) ''application/json''
                  (JSONText (JObject [(''payload'', JString (Sprintf_s payload))])) w of
             (rep, w') \<Rightarrow> (read_signature test_lib rep, w')))"

text \<open>The record that \<^verbatim>\<open>MarshalJSON\<close> writes for \<open>test_account\<close>.\<close>

definition test_record :: bytes where
  "test_record =
     JSONText (JObject
       [(''keyService'', JString ''http://localhost:8080''),
        (''name'', JString ''Account 1''),
        (''pubkey'', JString test_pubkey_hex),
        (''uuid'', JString test_uuid_string),
        (''version'', JNumber 4)])"

text \<open>The worked record with another number as its version.\<close>

definition test_record_version :: "rat \<Rightarrow> bytes" where
  "test_record_version q =
     JSONText (JObject
       [(''keyService'', JString ''http://localhost:8080''),
        (''name'', JString ''Account 1''),
        (''pubkey'', JString test_pubkey_hex),
        (''uuid'', JString test_uuid_string),
        (''version'', JNumber q)])"

text \<open>A record with the identity under the old key \<^verbatim>\<open>"id"\<close>, alone and with the
  other fields.\<close>

definition test_record_id_only :: bytes where
  "test_record_id_only = JSONText (JObject [(''id'', JString test_uuid_string)])"

definition test_record_legacy :: bytes where
  "test_record_legacy =
     JSONText (JObject
       [(''id'', JString test_uuid_string),
        (''keyService'', JString ''http://localhost:8080''),
        (''name'', JString ''Account 1''),
        (''pubkey'', JString test_pubkey_hex),
        (''version'', JNumber 4)])"

text \<open>The map that \<^verbatim>\<open>json.Unmarshal\<close> makes of \<open>test_record_version q\<close> when \<open>q\<close> is a
  \<^verbatim>\<open>float64\<close> as it stands.\<close>

definition test_map :: "rat \<Rightarrow> (string \<rightharpoonup> json)" where
  "test_map q =
     map_of
       [(''version'', JNumber q), (''uuid'', JString test_uuid_string),
        (''pubkey'', JString test_pubkey_hex), (''name'', JString ''Account 1''),
        (''keyService'', JString ''http://localhost:8080'')]"

text \<open>
  The two clients of the worked cases, and a server for them. It answers a request
  without a body, the \<^verbatim>\<open>GET\<close>, with the test key; it answers a \<^verbatim>\<open>POST\<close> by the
  payload of the request: the test signature for \<^verbatim>\<open>abcd\<close>, and one kind of failure
  for each of six other payloads.
\<close>

definition test_ks :: "string keyService" where
  "test_ks =
     \<lparr>ks_url = ''http://localhost:8080'',
      ks_publicKey = Some (BLSPublicKey test_pubkey_bytes), ks_version = 1\<rparr>"

definition test_ks_urlonly :: "string keyService_urlonly" where
  "test_ks_urlonly = \<lparr>uo_URL = ''http://localhost:8080''\<rparr>"

definition test_server :: "request \<Rightarrow> reply" where
  "test_server rq =
     (case rq_body rq of
        None \<Rightarrow> Body (JSONText (JObject [(''pk'', JString test_pubkey_hex)]))
      | Some body \<Rightarrow>
          if body = Marshal_signRequest ''abcd'' 0
            then Body (JSONText (JObject [(''sign'', JString test_sig_hex)]))
          else if body = Marshal_signRequest ''fail'' 0 then RequestFails ''connection refused''
          else if body = Marshal_signRequest ''read'' 0 then ReadFails ''unexpected EOF''
          else if body = Marshal_signRequest ''junk'' 0 then Body (NotJSON ''<html>'')
          else if body = Marshal_signRequest ''none'' 0 then Body (JSONText (JObject []))
          else if body = Marshal_signRequest ''odd'' 0
            then Body (JSONText (JObject [(''sign'', JString ''abc'')]))
          else Body (JSONText (JObject [(''sign'', JString ''00'')])))"

definition test_net :: world where
  "test_net = \<lparr>requests = [], server = test_server\<rparr>"

text \<open>
  The worked account under a name that is not valid UTF-8, the bytes \<^verbatim>\<open>41 FF 42\<close>, and
  the record that \<^verbatim>\<open>MarshalJSON\<close> writes for it.
\<close>

definition test_account_badname :: "string account" where
  "test_account_badname = test_account\<lparr>name := [CHR 0x41, CHR 0xFF, CHR 0x42]\<rparr>"

definition test_record_badname :: bytes where
  "test_record_badname =
     JSONText (JObject
       [(''keyService'', JString ''http://localhost:8080''),
        (''name'', JString [CHR 0x41, CHR 0xEF, CHR 0xBF, CHR 0xBD, CHR 0x42]),
        (''pubkey'', JString test_pubkey_hex),
        (''uuid'', JString test_uuid_string),
        (''version'', JNumber 4)])"

section \<open>Lemmas\<close>

subsection \<open>Hexadecimal text is read back as it was written\<close>

lemma fromHexChar_hexdigit: "n < 16 \<Longrightarrow> fromHexChar (hexdigit n) = Some n"
  by (auto simp: fromHexChar_def hexdigit_def Let_def)

lemma unat_byte_div16: "unat (b :: byte) div 16 < 16"
  using unsigned_less [of b, where ?'a = nat] by simp

lemma DecodeString_Sprintf_x: "DecodeString (Sprintf_x bs) = Inr bs"
  by (induction bs) (simp_all add: Sprintf_x_def fromHexChar_hexdigit unat_byte_div16)

lemma DecodeString_test_pubkey: "DecodeString test_pubkey_hex = Inr test_pubkey_bytes"
  by (simp add: test_pubkey_hex_def test_pubkey_bytes_def fromHexChar_def)

lemma length_test_pubkey: "length test_pubkey_bytes = 48"
  by (simp add: test_pubkey_bytes_def)

lemma test_pubkey_valid:
  "BLSPublicKeyFromBytes test_lib test_pubkey_bytes = Inr (BLSPublicKey test_pubkey_bytes)"
  by (simp add: BLSPublicKeyFromBytes_def length_test_pubkey test_lib_def)

subsection \<open>Strings that JSON leaves as they are\<close>

lemma json_string_valid: "ValidString s \<Longrightarrow> json_string s = s"
  by (induction s rule: json_string.induct) (auto split: if_splits)

lemma ValidString_ascii: "list_all (\<lambda>c. (of_char c :: nat) < 128) s \<Longrightarrow> ValidString s"
  by (induction s) auto

lemma hexdigit_ascii: "n < 16 \<Longrightarrow> (of_char (hexdigit n) :: nat) < 128"
  by (auto simp: hexdigit_def)

lemma ValidString_Sprintf_x: "ValidString (Sprintf_x bs)"
  by (rule ValidString_ascii)
    (induction bs, simp_all add: Sprintf_x_def hexdigit_ascii unat_byte_div16)

lemma json_string_Sprintf_x: "json_string (Sprintf_x bs) = Sprintf_x bs"
  by (rule json_string_valid) (rule ValidString_Sprintf_x)

lemma json_string_test_pubkey_hex: "json_string test_pubkey_hex = test_pubkey_hex"
  by (rule json_string_valid, rule ValidString_ascii) (simp add: test_pubkey_hex_def)


lemma json_string_test_uuid: "json_string test_uuid_string = test_uuid_string"
  by (rule json_string_valid, rule ValidString_ascii) (simp add: test_uuid_string_def)

lemma exact64_whole: "exact64 3" "exact64 4" "exact64 (9 / 2)" "exact64 0"
  by (simp_all add: exact64_def)

subsection \<open>Deserialization leaves the lock flag alone\<close>

lemma unmarshal_id_unlocked: "unmarshal_id L v a = Inr b \<Longrightarrow> unlocked b = unlocked a"
  by (auto simp: unmarshal_id_def split: option.splits sum.splits)

lemma unmarshal_name_unlocked: "unmarshal_name v a = Inr b \<Longrightarrow> unlocked b = unlocked a"
  by (auto simp: unmarshal_name_def split: option.splits)

lemma unmarshal_pubkey_unlocked: "unmarshal_pubkey L v a = Inr b \<Longrightarrow> unlocked b = unlocked a"
  by (auto simp: unmarshal_pubkey_def split: option.splits sum.splits)

lemma unmarshal_version_unlocked: "unmarshal_version L v a = Inr b \<Longrightarrow> unlocked b = unlocked a"
  by (auto simp: unmarshal_version_def split: option.splits)

lemma select_encryptor_unlocked: "select_encryptor a = Inr b \<Longrightarrow> unlocked b = unlocked a"
  by (auto simp: select_encryptor_def split: if_splits)

lemma unmarshal_keyService_unlocked:
  "unmarshal_keyService L v a = Inr b \<Longrightarrow> unlocked b = unlocked a"
  by (auto simp: unmarshal_keyService_def split: option.splits sum.splits)

lemma UnmarshalJSON_unlocked:
  assumes "UnmarshalJSON L a data = Inr b"
  shows "unlocked b = unlocked a"
proof -
  from assms obtain v a1 a2 a3 a4 a5 where
    "unmarshal_id L v a = Inr a1" "unmarshal_name v a1 = Inr a2"
    "unmarshal_pubkey L v a2 = Inr a3" "unmarshal_version L v a3 = Inr a4"
    "select_encryptor a4 = Inr a5" "unmarshal_keyService L v a5 = Inr b"
    by (auto simp: UnmarshalJSON_def split: sum.splits)
  then show ?thesis
    using unmarshal_id_unlocked unmarshal_name_unlocked unmarshal_pubkey_unlocked
      unmarshal_version_unlocked select_encryptor_unlocked unmarshal_keyService_unlocked
    by metis
qed

subsection \<open>A record whose fields are all valid deserializes\<close>

lemma UnmarshalJSON_fields:
  assumes "Unmarshal_map L data = Inr v"
    and "unmarshal_id L v a = Inr a1"
    and "v ''name'' = Some (JString n)"
    and "v ''pubkey'' = Some (JString h)" and "DecodeString h = Inr bs"
    and "length bs = 48" and "g1_point L bs"
    and "v ''version'' = Some (JNumber q)" and "uint_of_float64 L q = 4"
    and "v ''keyService'' = Some (JString us)" and "url_Parse L us = Inr u"
  shows "UnmarshalJSON L a data =
           Inr (a1\<lparr>name := n, publicKey := Some (BLSPublicKey bs), version := 4,
                    encryptor := Some keystorev4_New, keyService := Some \<lparr>URL = u\<rparr>\<rparr>)"
  using assms
  by (simp add: UnmarshalJSON_def unmarshal_name_def unmarshal_pubkey_def
      unmarshal_version_def select_encryptor_def unmarshal_keyService_def
      newKeyService_raw_def as_string_def as_float64_def BLSPublicKeyFromBytes_def)

lemma unmarshal_id_uuid:
  assumes "v ''uuid'' = Some (JString s)" and "uuid_Parse L s = Inr i"
  shows "unmarshal_id L v a = Inr (a\<lparr>acct_id := i\<rparr>)"
  using assms by (simp add: unmarshal_id_def as_string_def)

lemma unmarshal_id_legacy:
  assumes "v ''uuid'' = None" and "v ''id'' = Some (JString s)" and "uuid_Parse L s = Inr i"
  shows "unmarshal_id L v a = Inr (a\<lparr>acct_id := i\<rparr>)"
  using assms by (simp add: unmarshal_id_def as_string_def)

lemma uint_of_float64_4: "uint_of_float64 L 4 = 4"
  by (simp add: uint_of_float64_def)

subsection \<open>The worked record deserializes to the worked account\<close>

lemma test_lib_fields:
  "uuid_Parse test_lib test_uuid_string = Inr test_uuid"
  "uuid_String test_lib test_uuid = test_uuid_string"
  "url_Parse test_lib s = Inr s"
  "url_String test_lib s = test_escape s"
  "url_IsAbs test_lib s = test_IsAbs s"
  "g1_point test_lib test_pubkey_bytes"
  "g2_point test_lib test_sig_bytes"
  by (simp_all add: test_lib_def)

lemma test_escape_localhost:
  "test_escape ''http://localhost:8080'' = ''http://localhost:8080''"
  "test_escape ''localhost'' = ''localhost''"
  "test_escape [] = []"
  "test_escape ''a b'' = ''a%20b''"
  by (simp_all add: test_escape_def)

lemma test_record_version_map:
  assumes "exact64 q"
  shows "Unmarshal_map test_lib (test_record_version q) = Inr (test_map q)"
  using assms
  by (simp add: Unmarshal_map_def test_record_version_def test_map_def ParseFloat_def
      json_string_test_pubkey_hex json_string_test_uuid)

lemma test_map_fields:
  "test_map q ''uuid'' = Some (JString test_uuid_string)"
  "test_map q ''name'' = Some (JString ''Account 1'')"
  "test_map q ''pubkey'' = Some (JString test_pubkey_hex)"
  "test_map q ''version'' = Some (JNumber q)"
  "test_map q ''keyService'' = Some (JString ''http://localhost:8080'')"
  by (simp_all add: test_map_def)

lemma test_id_step:
  "unmarshal_id test_lib (test_map q) a = Inr (a\<lparr>acct_id := test_uuid\<rparr>)"
  by (rule unmarshal_id_uuid [of _ test_uuid_string]) (simp_all add: test_map_fields test_lib_fields)

lemma test_name_step:
  "unmarshal_name (test_map q) a = Inr (a\<lparr>name := ''Account 1''\<rparr>)"
  by (simp add: unmarshal_name_def test_map_fields as_string_def)

lemma test_pubkey_step:
  "unmarshal_pubkey test_lib (test_map q) a =
     Inr (a\<lparr>publicKey := Some (BLSPublicKey test_pubkey_bytes)\<rparr>)"
  by (simp add: unmarshal_pubkey_def test_map_fields as_string_def DecodeString_test_pubkey
      test_pubkey_valid)

lemma deserialize_test_record_version:
  assumes "exact64 q" and "uint_of_float64 test_lib q = 4"
  shows "deserializeAccount test_lib test_wallet (test_record_version q) = Inr test_account"
proof -
  let ?a = "newAccount\<lparr>wallet := Some test_wallet, encryptor := w_encryptor test_wallet\<rparr>
              :: string account"
  have "UnmarshalJSON test_lib ?a (test_record_version q) =
          Inr (?a\<lparr>acct_id := test_uuid, name := ''Account 1'',
                   publicKey := Some (BLSPublicKey test_pubkey_bytes), version := 4,
                   encryptor := Some keystorev4_New,
                   keyService := Some \<lparr>URL = ''http://localhost:8080''\<rparr>\<rparr>)"
    by (rule UnmarshalJSON_fields [OF test_record_version_map [OF assms(1)] test_id_step,
          of _ test_pubkey_hex _ q "''http://localhost:8080''"])
      (simp_all add: DecodeString_test_pubkey length_test_pubkey test_lib_fields
        test_map_fields assms(2))
  then show ?thesis
    by (simp add: deserializeAccount_def newAccount_def test_account_def)
qed

lemma test_record_version_4: "test_record = test_record_version 4"
  by (simp add: test_record_def test_record_version_def)

lemma deserialize_test_record:
  "deserializeAccount test_lib test_wallet test_record = Inr test_account"
  unfolding test_record_version_4
  by (rule deserialize_test_record_version) (rule exact64_whole, rule uint_of_float64_4)

lemma uint_of_float64_range:
  assumes "0 \<le> q" and "q < 2 ^ 64"
  shows "(uint_of_float64 L q = 4) = (4 \<le> q \<and> q < 5)"
proof -
  have "(nat \<lfloor>q\<rfloor> = 4) = (\<lfloor>q\<rfloor> = 4)"
    using assms(1) by (simp add: nat_eq_iff)
  also have "\<dots> = (4 \<le> q \<and> q < 5)"
    by (simp add: floor_eq_iff)
  finally show ?thesis
    using assms by (simp add: uint_of_float64_def)
qed

lemma uint_of_float64_nat:
  assumes "n < 2 ^ 64"
  shows "uint_of_float64 L (of_nat n) = n"
proof -
  have "(of_nat n :: rat) < of_nat (2 ^ 64)"
    using assms by (simp only: of_nat_less_iff)
  then have "(of_nat n :: rat) < 2 ^ 64" by simp
  then show ?thesis by (simp add: uint_of_float64_def)
qed

subsection \<open>The blocks after the identity leave it alone\<close>

lemma unmarshal_name_id: "unmarshal_name v a = Inr b \<Longrightarrow> acct_id b = acct_id a"
  by (auto simp: unmarshal_name_def split: option.splits)

lemma unmarshal_pubkey_id: "unmarshal_pubkey L v a = Inr b \<Longrightarrow> acct_id b = acct_id a"
  by (auto simp: unmarshal_pubkey_def split: option.splits sum.splits)

lemma unmarshal_version_id: "unmarshal_version L v a = Inr b \<Longrightarrow> acct_id b = acct_id a"
  by (auto simp: unmarshal_version_def split: option.splits)

lemma select_encryptor_id: "select_encryptor a = Inr b \<Longrightarrow> acct_id b = acct_id a"
  by (auto simp: select_encryptor_def split: if_splits)

lemma unmarshal_keyService_id: "unmarshal_keyService L v a = Inr b \<Longrightarrow> acct_id b = acct_id a"
  by (auto simp: unmarshal_keyService_def split: option.splits sum.splits)

lemma UnmarshalJSON_steps:
  assumes "UnmarshalJSON L a data = Inr b"
  obtains v a1 a2 a3 a4 a5 where
    "Unmarshal_map L data = Inr v"
    "unmarshal_id L v a = Inr a1" "unmarshal_name v a1 = Inr a2"
    "unmarshal_pubkey L v a2 = Inr a3" "unmarshal_version L v a3 = Inr a4"
    "select_encryptor a4 = Inr a5" "unmarshal_keyService L v a5 = Inr b"
  using assms by (auto simp: UnmarshalJSON_def split: sum.splits)

lemma UnmarshalJSON_id:
  assumes "UnmarshalJSON L a data = Inr b" and "Unmarshal_map L data = Inr v"
    and "unmarshal_id L v a = Inr a1"
  shows "acct_id b = acct_id a1"
proof -
  from assms(1) obtain v' a1' a2 a3 a4 a5 where s:
    "Unmarshal_map L data = Inr v'"
    "unmarshal_id L v' a = Inr a1'" "unmarshal_name v' a1' = Inr a2"
    "unmarshal_pubkey L v' a2 = Inr a3" "unmarshal_version L v' a3 = Inr a4"
    "select_encryptor a4 = Inr a5" "unmarshal_keyService L v' a5 = Inr b"
    by (rule UnmarshalJSON_steps)
  from s(1) assms(2) have "v' = v" by simp
  with s(2) assms(3) have "a1' = a1" by simp
  have "acct_id b = acct_id a5" using s(7) by (rule unmarshal_keyService_id)
  also have "\<dots> = acct_id a4" using s(6) by (rule select_encryptor_id)
  also have "\<dots> = acct_id a3" using s(5) by (rule unmarshal_version_id)
  also have "\<dots> = acct_id a2" using s(4) by (rule unmarshal_pubkey_id)
  also have "\<dots> = acct_id a1'" using s(3) by (rule unmarshal_name_id)
  finally show ?thesis using \<open>a1' = a1\<close> by simp
qed

subsection \<open>Which block reports which error\<close>

lemma DecodeString_error:
  "DecodeString s = Inl e \<Longrightarrow> e = ErrLength \<or> (\<exists>c. e = InvalidByteError c)"
  by (induction s arbitrary: e rule: DecodeString.induct)
    (auto split: option.splits sum.splits)

lemma BLSPublicKeyFromBytes_error:
  "BLSPublicKeyFromBytes L bs = Inl e \<Longrightarrow> e = BLSLengthError \<or> e = BLSDeserializeError"
  by (auto simp: BLSPublicKeyFromBytes_def split: if_splits)

lemma unmarshal_id_missing:
  "(unmarshal_id L v a = Inl (ErrorsNew ''account ID missing'')) =
     (v ''uuid'' = None \<and> v ''id'' = None)"
  by (auto simp: unmarshal_id_def split: option.splits sum.splits)

lemma unmarshal_name_not_missing_id:
  "unmarshal_name v a = Inl e \<Longrightarrow> e \<noteq> ErrorsNew ''account ID missing''"
  by (auto simp: unmarshal_name_def split: option.splits)

lemma unmarshal_pubkey_not_missing_id:
  "unmarshal_pubkey L v a = Inl e \<Longrightarrow> e \<noteq> ErrorsNew ''account ID missing''"
  by (auto simp: unmarshal_pubkey_def split: option.splits sum.splits
      dest: DecodeString_error BLSPublicKeyFromBytes_error)

lemma unmarshal_version_not_missing_id:
  "unmarshal_version L v a = Inl e \<Longrightarrow> e \<noteq> ErrorsNew ''account ID missing''"
  by (auto simp: unmarshal_version_def split: option.splits)

lemma select_encryptor_not_missing_id:
  "select_encryptor a = Inl e \<Longrightarrow> e \<noteq> ErrorsNew ''account ID missing''"
  by (auto simp: select_encryptor_def split: if_splits)

lemma unmarshal_keyService_not_missing_id:
  "unmarshal_keyService L v a = Inl e \<Longrightarrow> e \<noteq> ErrorsNew ''account ID missing''"
  by (auto simp: unmarshal_keyService_def newKeyService_raw_def split: option.splits sum.splits)

lemma UnmarshalJSON_missing_id:
  assumes "Unmarshal_map L data = Inr v"
  shows "(UnmarshalJSON L a data = Inl (ErrorsNew ''account ID missing'')) =
           (v ''uuid'' = None \<and> v ''id'' = None)"
proof (cases "unmarshal_id L v a")
  case (Inl e)
  then have "UnmarshalJSON L a data = Inl e"
    using assms by (simp add: UnmarshalJSON_def)
  then show ?thesis
    using Inl unmarshal_id_missing [of L v a] by simp
next
  case (Inr a1)
  then have present: "\<not> (v ''uuid'' = None \<and> v ''id'' = None)"
    using unmarshal_id_missing [of L v a] by auto
  have "UnmarshalJSON L a data \<noteq> Inl (ErrorsNew ''account ID missing'')"
    using assms Inr
    by (auto simp: UnmarshalJSON_def split: sum.splits
        dest: unmarshal_name_not_missing_id unmarshal_pubkey_not_missing_id
          unmarshal_version_not_missing_id select_encryptor_not_missing_id
          unmarshal_keyService_not_missing_id)
  with present show ?thesis by simp
qed

lemma unmarshal_keyService_keeps:
  "unmarshal_keyService L v a = Inr b \<Longrightarrow>
     version b = version a \<and> encryptor b = encryptor a"
  by (auto simp: unmarshal_keyService_def split: option.splits sum.splits)

subsection \<open>The worked signature\<close>


subsection \<open>The worked server\<close>

lemma test_server_GET:
  "server test_net \<lparr>rq_verb = GET, rq_url = u, rq_contentType = [], rq_body = None\<rparr> =
     Body (JSONText (JObject [(''pk'', JString test_pubkey_hex)]))"
  by (simp add: test_net_def test_server_def)

lemma Unmarshal_field_pk:
  "Unmarshal_field ''pk'' (JSONText (JObject [(''pk'', JString s)])) = Inr (json_string s)"
  by (simp add: Unmarshal_field_def lower_def)


lemma test_pubkey_hex_nonempty: "test_pubkey_hex \<noteq> []"
  by (simp add: test_pubkey_hex_def)


lemma Sprintf_x_test_pubkey: "Sprintf_x test_pubkey_bytes = test_pubkey_hex"
  by code_simp







section \<open>The claims\<close>

text \<open>
  C8. \<^verbatim>\<open>Unlock\<close> returns no error for any account and any passphrase and leaves the
  account unlocked. \<^verbatim>\<open>Lock\<close> on a locked account and \<^verbatim>\<open>Unlock\<close> on an unlocked
  account give back the account as it was, and doing either twice is doing it once.
\<close>

theorem Lock_Unlock_idempotent:
  "fst (Unlock a passphrase) = None
   \<and> unlocked (snd (Unlock a passphrase))
   \<and> (\<not> unlocked a \<longrightarrow> Lock a = a)
   \<and> (unlocked a \<longrightarrow> snd (Unlock a passphrase) = a)
   \<and> Lock (Lock a) = Lock a
   \<and> snd (Unlock (snd (Unlock a passphrase)) passphrase') = snd (Unlock a passphrase)"
  by (simp add: Lock_def Unlock_def)

theorem Lock_Unlock_idempotent_witness:
  "\<not> unlocked test_account \<and> Lock test_account = test_account
   \<and> unlocked (snd (Unlock test_account [1, 2])) 
   \<and> snd (Unlock (snd (Unlock test_account [1, 2])) [3]) = snd (Unlock test_account [1, 2])"
  using Lock_Unlock_idempotent [of test_account "[1, 2]" "[3]"]
    Lock_Unlock_idempotent [of "snd (Unlock test_account [1, 2])" "[3]" "[]"]
  by (simp add: test_account_def Unlock_def)

text \<open>
  C1. \<^verbatim>\<open>Sign\<close> on a locked account fails with the locked error for every data and
  domain, and gives back the account and the network as they were: nothing is sent. The
  account of \<^verbatim>\<open>newAccount\<close> is locked, and so is every account that
  \<^verbatim>\<open>deserializeAccount\<close> returns. On an unlocked account with a key service bound,
  the result and the network are those of the key service's \<^verbatim>\<open>Sign\<close>.
\<close>

theorem Sign_locked_gate:
  "(\<not> unlocked a \<longrightarrow>
      Sign ksSign data domain (a, w) =
        (Inl (ErrorsNew ''cannot sign when account is locked''), a, w))
   \<and> \<not> unlocked (newAccount :: 'l account)
   \<and> (deserializeAccount L wl record = Inr (b :: 'l account) \<longrightarrow> \<not> unlocked b)
   \<and> (unlocked a \<and> keyService a = Some ks \<longrightarrow>
        Sign ksSign data domain (a, w) =
          (fst (ksSign ks (publicKey a) data w), a, snd (ksSign ks (publicKey a) data w)))"
proof -
  have locked: "\<not> unlocked a \<longrightarrow>
      Sign ksSign data domain (a, w) =
        (Inl (ErrorsNew ''cannot sign when account is locked''), a, w)"
    by (simp add: Sign_def IsUnlocked_def)
  have fresh: "\<not> unlocked (newAccount :: 'l account)"
    by (simp add: newAccount_def)
  have stored: "deserializeAccount L wl record = Inr b \<longrightarrow> \<not> unlocked b"
  proof
    assume "deserializeAccount L wl record = Inr b"
    then have "unlocked b =
        unlocked ((newAccount :: 'l account)\<lparr>wallet := Some wl, encryptor := w_encryptor wl\<rparr>)"
      unfolding deserializeAccount_def by (rule UnmarshalJSON_unlocked)
    then show "\<not> unlocked b" by (simp add: newAccount_def)
  qed
  have forward: "unlocked a \<and> keyService a = Some ks \<longrightarrow>
        Sign ksSign data domain (a, w) =
          (fst (ksSign ks (publicKey a) data w), a, snd (ksSign ks (publicKey a) data w))"
    by (simp add: Sign_def IsUnlocked_def split: prod.splits)
  from locked fresh stored forward show ?thesis by blast
qed

theorem Sign_locked_gate_witness:
  "\<not> unlocked test_account
   \<and> Sign test_ksSign [0x61, 0x62, 0x63, 0x64] 42 (test_account, test_world) =
       (Inl (ErrorsNew ''cannot sign when account is locked''), test_account, test_world)
   \<and> deserializeAccount test_lib test_wallet test_record = Inr test_account
   \<and> unlocked (snd (Unlock test_account []))
   \<and> keyService (snd (Unlock test_account [])) = Some \<lparr>URL = ''http://localhost:8080''\<rparr>
   \<and> Sign test_ksSign [0x61, 0x62, 0x63, 0x64] 42 (snd (Unlock test_account []), test_world) =
       (fst (test_ksSign \<lparr>URL = ''http://localhost:8080''\<rparr>
               (Some (BLSPublicKey test_pubkey_bytes)) [0x61, 0x62, 0x63, 0x64] test_world),
        snd (Unlock test_account []),
        snd (test_ksSign \<lparr>URL = ''http://localhost:8080''\<rparr>
               (Some (BLSPublicKey test_pubkey_bytes)) [0x61, 0x62, 0x63, 0x64] test_world))"
  using Sign_locked_gate [of test_account test_ksSign "[0x61, 0x62, 0x63, 0x64]" 42 test_world
      test_lib test_wallet test_record test_account "\<lparr>URL = ''http://localhost:8080''\<rparr>"]
    Sign_locked_gate [of "snd (Unlock test_account [])" test_ksSign "[0x61, 0x62, 0x63, 0x64]" 42
      test_world test_lib test_wallet test_record test_account
      "\<lparr>URL = ''http://localhost:8080''\<rparr>"]
    deserialize_test_record
  by (simp add: test_account_def Unlock_def)

text \<open>
  C2. The claim is that \<^verbatim>\<open>Sign\<close> of the account forwards the domain to the key
  service. The code does not: whatever the key service's \<^verbatim>\<open>Sign\<close> is, the result and
  the network after \<^verbatim>\<open>Sign(data, domain)\<close> are those after \<^verbatim>\<open>Sign(data, domain')\<close>
  for any two domains, so no request can carry the domain.
\<close>

theorem Sign_drops_domain:
  "Sign ksSign data domain st = Sign ksSign data domain' st"
  by (simp add: Sign_def)

text \<open>
  C3 (as amended). In the client with a cached key, \<^verbatim>\<open>PublicKey\<close> sends nothing, on
  the first call or any other: the network comes back as it was, and when the client
  holds a key of 48 bytes that is a point of the curve, the result is that key. In the
  client with a URL only, every call of \<^verbatim>\<open>PublicKey\<close> sends one \<^verbatim>\<open>GET\<close> to the
  client's URL, and when the answer's \<^verbatim>\<open>"pk"\<close> field holds hexadecimal text, the result
  is the public key of the bytes it decodes to; nothing is kept for a later call.
\<close>

theorem PublicKey_network:
  "snd (keyService_PublicKey L ks w) = w
   \<and> (ks_publicKey ks = Some pk \<and> length (Marshal pk) = 48 \<and> g1_point L (Marshal pk) \<longrightarrow>
        fst (keyService_PublicKey L ks w) = Inr (Some pk))
   \<and> snd (PublicKey_urlonly L ku w) =
        w\<lparr>requests := requests w @
            [\<lparr>rq_verb = GET, rq_url = url_String L (uo_URL ku), rq_contentType = [],
              rq_body = None\<rparr>]\<rparr>
   \<and> (server w \<lparr>rq_verb = GET, rq_url = url_String L (uo_URL ku), rq_contentType = [],
                 rq_body = None\<rparr> = Body body
        \<and> Unmarshal_field ''pk'' body = Inr s \<and> s \<noteq> [] \<and> DecodeString s = Inr bs \<longrightarrow>
        fst (PublicKey_urlonly L ku w) = BLSPublicKeyFromBytes L bs)"
proof -
  have quiet: "snd (keyService_PublicKey L ks w) = w"
    by (simp add: keyService_PublicKey_def split: option.splits sum.splits)
  have held: "ks_publicKey ks = Some pk \<and> length (Marshal pk) = 48 \<and> g1_point L (Marshal pk) \<longrightarrow>
      fst (keyService_PublicKey L ks w) = Inr (Some pk)"
    by (simp add: keyService_PublicKey_def BLSPublicKeyFromBytes_def)
  have sent: "snd (PublicKey_urlonly L ku w) =
      w\<lparr>requests := requests w @
          [\<lparr>rq_verb = GET, rq_url = url_String L (uo_URL ku), rq_contentType = [],
            rq_body = None\<rparr>]\<rparr>"
    by (simp add: PublicKey_urlonly_def http_Get_def send_def
        split: reply.splits sum.splits)
  have decoded: "server w \<lparr>rq_verb = GET, rq_url = url_String L (uo_URL ku),
        rq_contentType = [], rq_body = None\<rparr> = Body body
      \<and> Unmarshal_field ''pk'' body = Inr s \<and> s \<noteq> [] \<and> DecodeString s = Inr bs \<longrightarrow>
      fst (PublicKey_urlonly L ku w) = BLSPublicKeyFromBytes L bs"
    by (simp add: PublicKey_urlonly_def http_Get_def send_def)
  from quiet held sent decoded show ?thesis by blast
qed

theorem PublicKey_network_witness:
  "ks_publicKey test_ks = Some (BLSPublicKey test_pubkey_bytes)
   \<and> length (Marshal (BLSPublicKey test_pubkey_bytes)) = 48
   \<and> g1_point test_lib (Marshal (BLSPublicKey test_pubkey_bytes))
   \<and> keyService_PublicKey test_lib test_ks test_net =
       (Inr (Some (BLSPublicKey test_pubkey_bytes)), test_net)
   \<and> server test_net \<lparr>rq_verb = GET, rq_url = url_String test_lib (uo_URL test_ks_urlonly),
         rq_contentType = [], rq_body = None\<rparr> =
       Body (JSONText (JObject [(''pk'', JString test_pubkey_hex)]))
   \<and> Unmarshal_field ''pk'' (JSONText (JObject [(''pk'', JString test_pubkey_hex)])) =
       Inr test_pubkey_hex
   \<and> test_pubkey_hex \<noteq> []
   \<and> DecodeString test_pubkey_hex = Inr test_pubkey_bytes
   \<and> PublicKey_urlonly test_lib test_ks_urlonly test_net =
       (Inr (BLSPublicKey test_pubkey_bytes),
        test_net\<lparr>requests :=
          [\<lparr>rq_verb = GET, rq_url = ''http://localhost:8080'', rq_contentType = [],
            rq_body = None\<rparr>]\<rparr>)"
proof -
  have nothing_sent: "requests test_net = []"
    by (simp add: test_net_def)
  have key: "ks_publicKey test_ks = Some (BLSPublicKey test_pubkey_bytes)"
    by (simp add: test_ks_def)
  show ?thesis
    using PublicKey_network [of test_lib test_ks test_net "BLSPublicKey test_pubkey_bytes"
        test_ks_urlonly "JSONText (JObject [(''pk'', JString test_pubkey_hex)])"
        test_pubkey_hex test_pubkey_bytes]
    by (simp add: key length_test_pubkey test_lib_fields test_server_GET Unmarshal_field_pk
        json_string_test_pubkey_hex test_pubkey_hex_nonempty DecodeString_test_pubkey
        test_pubkey_valid nothing_sent test_ks_urlonly_def test_escape_localhost prod_eq_iff)
qed

text \<open>
  C3 as stated fails in both clients. With a cached key, the first call of
  \<^verbatim>\<open>PublicKey\<close> on a network where nothing was sent leaves nothing sent: no \<^verbatim>\<open>GET\<close>.
  With a URL only, two calls in a row leave two requests sent: the second call goes to
  the network again.
\<close>

theorem PublicKey_cache_counterexample:
  "requests test_net = []
   \<and> requests (snd (keyService_PublicKey test_lib test_ks test_net)) = []
   \<and> length (requests (snd (PublicKey_urlonly test_lib test_ks_urlonly
        (snd (PublicKey_urlonly test_lib test_ks_urlonly test_net))))) = 2"
  by (simp add: keyService_PublicKey_def PublicKey_urlonly_def http_Get_def send_def
      test_net_def test_ks_def split: sum.splits reply.splits)

text \<open>
  C10. Take a record that \<^verbatim>\<open>json.Unmarshal\<close> reads into a map. If it has
  no \<^verbatim>\<open>"uuid"\<close> key and its \<^verbatim>\<open>"id"\<close> key holds a string that parses as a UUID, the
  identity block succeeds with that UUID; every account \<^verbatim>\<open>UnmarshalJSON\<close> then returns
  has it as its id; and \<^verbatim>\<open>UnmarshalJSON\<close> does return an account when the name, the
  public key, the version and the key service of the record are valid too.
  \<^verbatim>\<open>UnmarshalJSON\<close> reports "account ID missing" exactly when both keys are absent.
\<close>

theorem legacy_id_field:
  assumes "Unmarshal_map L data = Inr v"
  shows "(v ''uuid'' = None \<and> v ''id'' = Some (JString s) \<and> uuid_Parse L s = Inr i \<longrightarrow>
            unmarshal_id L v a = Inr (a\<lparr>acct_id := i\<rparr>)
            \<and> (\<forall>b. UnmarshalJSON L a data = Inr b \<longrightarrow> acct_id b = i)
            \<and> (v ''name'' = Some (JString n)
                \<and> v ''pubkey'' = Some (JString h) \<and> DecodeString h = Inr bs
                \<and> length bs = 48 \<and> g1_point L bs
                \<and> v ''version'' = Some (JNumber q) \<and> uint_of_float64 L q = 4
                \<and> v ''keyService'' = Some (JString us) \<and> url_Parse L us = Inr u \<longrightarrow>
                UnmarshalJSON L a data =
                  Inr (a\<lparr>acct_id := i, name := n, publicKey := Some (BLSPublicKey bs),
                          version := 4, encryptor := Some keystorev4_New,
                          keyService := Some \<lparr>URL = u\<rparr>\<rparr>)))
         \<and> ((UnmarshalJSON L a data = Inl (ErrorsNew ''account ID missing'')) =
              (v ''uuid'' = None \<and> v ''id'' = None))"
proof -
  have legacy: "unmarshal_id L v a = Inr (a\<lparr>acct_id := i\<rparr>)
      \<and> (\<forall>b. UnmarshalJSON L a data = Inr b \<longrightarrow> acct_id b = i)
      \<and> (v ''name'' = Some (JString n)
          \<and> v ''pubkey'' = Some (JString h) \<and> DecodeString h = Inr bs
          \<and> length bs = 48 \<and> g1_point L bs
          \<and> v ''version'' = Some (JNumber q) \<and> uint_of_float64 L q = 4
          \<and> v ''keyService'' = Some (JString us) \<and> url_Parse L us = Inr u \<longrightarrow>
          UnmarshalJSON L a data =
            Inr (a\<lparr>acct_id := i, name := n, publicKey := Some (BLSPublicKey bs),
                    version := 4, encryptor := Some keystorev4_New,
                    keyService := Some \<lparr>URL = u\<rparr>\<rparr>))"
    if h: "v ''uuid'' = None" "v ''id'' = Some (JString s)" "uuid_Parse L s = Inr i"
  proof -
    have step: "unmarshal_id L v a = Inr (a\<lparr>acct_id := i\<rparr>)"
      using h by (rule unmarshal_id_legacy)
    have kept: "\<forall>b. UnmarshalJSON L a data = Inr b \<longrightarrow> acct_id b = i"
      using UnmarshalJSON_id [OF _ assms step] by simp
    have rest: "UnmarshalJSON L a data =
            Inr (a\<lparr>acct_id := i, name := n, publicKey := Some (BLSPublicKey bs),
                    version := 4, encryptor := Some keystorev4_New,
                    keyService := Some \<lparr>URL = u\<rparr>\<rparr>)"
      if "v ''name'' = Some (JString n)"
        "v ''pubkey'' = Some (JString h)" "DecodeString h = Inr bs"
        "length bs = 48" "g1_point L bs"
        "v ''version'' = Some (JNumber q)" "uint_of_float64 L q = 4"
        "v ''keyService'' = Some (JString us)" "url_Parse L us = Inr u"
      using UnmarshalJSON_fields [OF assms step that] by simp
    from step kept rest show ?thesis by blast
  qed
  moreover have "(UnmarshalJSON L a data = Inl (ErrorsNew ''account ID missing'')) =
      (v ''uuid'' = None \<and> v ''id'' = None)"
    using assms by (rule UnmarshalJSON_missing_id)
  ultimately show ?thesis by blast
qed

theorem legacy_id_field_witness:
  "Unmarshal_map test_lib test_record_legacy =
     Inr (map_of
       [(''version'', JNumber 4), (''pubkey'', JString test_pubkey_hex),
        (''name'', JString ''Account 1''),
        (''keyService'', JString ''http://localhost:8080''),
        (''id'', JString test_uuid_string)])
   \<and> uuid_Parse test_lib test_uuid_string = Inr test_uuid
   \<and> DecodeString test_pubkey_hex = Inr test_pubkey_bytes
   \<and> length test_pubkey_bytes = 48 \<and> g1_point test_lib test_pubkey_bytes
   \<and> uint_of_float64 test_lib 4 = 4
   \<and> url_Parse test_lib ''http://localhost:8080'' = Inr ''http://localhost:8080''
   \<and> UnmarshalJSON test_lib newAccount test_record_legacy =
       Inr (newAccount\<lparr>acct_id := test_uuid, name := ''Account 1'',
              publicKey := Some (BLSPublicKey test_pubkey_bytes), version := 4,
              encryptor := Some keystorev4_New,
              keyService := Some \<lparr>URL = ''http://localhost:8080''\<rparr>\<rparr>)
   \<and> UnmarshalJSON test_lib newAccount (JSONText (JObject [])) =
       Inl (ErrorsNew ''account ID missing'')"
proof -
  let ?v = "map_of
       [(''version'', JNumber 4), (''pubkey'', JString test_pubkey_hex),
        (''name'', JString ''Account 1''),
        (''keyService'', JString ''http://localhost:8080''),
        (''id'', JString test_uuid_string)]"
  have m: "Unmarshal_map test_lib test_record_legacy = Inr ?v"
    by (simp add: Unmarshal_map_def test_record_legacy_def ParseFloat_def exact64_whole
        json_string_test_pubkey_hex json_string_test_uuid)
  have e: "Unmarshal_map test_lib (JSONText (JObject [])) = Inr Map.empty"
    by (simp add: Unmarshal_map_def)
  show ?thesis
    using legacy_id_field [OF m, where s = test_uuid_string and i = test_uuid
        and a = newAccount and n = "''Account 1''" and h = test_pubkey_hex
        and bs = test_pubkey_bytes and q = 4 and us = "''http://localhost:8080''"
        and u = "''http://localhost:8080''"]
      legacy_id_field [OF e, where s = test_uuid_string and i = test_uuid
        and a = newAccount and n = "''Account 1''" and h = test_pubkey_hex
        and bs = test_pubkey_bytes and q = 4 and us = "''http://localhost:8080''"
        and u = "''http://localhost:8080''"]
      m
    by (simp add: test_lib_fields DecodeString_test_pubkey length_test_pubkey
        uint_of_float64_4)
qed


text \<open>
  C4 (as amended). \<^verbatim>\<open>newKeyService\<close>, in the client with a cached key and in the
  client with a URL only, takes a parsed URL. Given an absolute URL it succeeds and the
  client holds that URL unchanged. Given a URL that is not absolute it fails with the
  message that names, between single quotes, the string form of the URL. That is the
  string \<open>S\<close> the URL was parsed from whenever the URL prints back as \<open>S\<close>, as in the
  scenarios of the tests, which are the witness.
\<close>

theorem newKeyService_absolute:
  "(url_IsAbs L u \<longrightarrow>
      (\<exists>ks. newKeyService L u = Inr ks \<and> ks_url ks = u)
      \<and> (\<exists>ks. newKeyService_urlonly L u = Inr ks \<and> uo_URL ks = u))
   \<and> (\<not> url_IsAbs L u \<longrightarrow>
      newKeyService L u =
        Inl (ErrorsNew (''keyService URL '' @ [CHR 0x27] @ url_String L u @ [CHR 0x27] @ '' is not absolute''))
      \<and> newKeyService_urlonly L u =
        Inl (ErrorsNew (''keyService URL '' @ [CHR 0x27] @ url_String L u @ [CHR 0x27] @ '' is not absolute'')))
   \<and> (url_Parse L S = Inr u \<and> \<not> url_IsAbs L u \<and> url_String L u = S \<longrightarrow>
      newKeyService L u =
        Inl (ErrorsNew (''keyService URL '' @ [CHR 0x27] @ S @ [CHR 0x27] @ '' is not absolute''))
      \<and> newKeyService_urlonly L u =
        Inl (ErrorsNew (''keyService URL '' @ [CHR 0x27] @ S @ [CHR 0x27] @ '' is not absolute'')))"
  by (auto simp: newKeyService_def newKeyService_urlonly_def)

theorem newKeyService_absolute_witness:
  "url_Parse test_lib ''http://localhost:8080'' = Inr ''http://localhost:8080''
   \<and> url_IsAbs test_lib ''http://localhost:8080''
   \<and> (\<exists>ks. newKeyService test_lib ''http://localhost:8080'' = Inr ks
         \<and> url_String test_lib (ks_url ks) = ''http://localhost:8080'')
   \<and> url_Parse test_lib ''localhost'' = Inr ''localhost''
   \<and> \<not> url_IsAbs test_lib ''localhost''
   \<and> url_String test_lib ''localhost'' = ''localhost''
   \<and> newKeyService test_lib ''localhost'' =
       Inl (ErrorsNew ''keyService URL 'localhost' is not absolute'')
   \<and> url_Parse test_lib [] = Inr []
   \<and> \<not> url_IsAbs test_lib []
   \<and> url_String test_lib [] = []
   \<and> newKeyService test_lib [] =
       Inl (ErrorsNew (''keyService URL '' @ [CHR 0x27, CHR 0x27] @ '' is not absolute''))"
  using newKeyService_absolute [of test_lib "''http://localhost:8080''" "''http://localhost:8080''"]
    newKeyService_absolute [of test_lib "''localhost''" "''localhost''"]
    newKeyService_absolute [of test_lib "[]" "[]"]
  by (auto simp: test_lib_fields test_IsAbs_def test_escape_localhost)

text \<open>
  C4 as stated fails: the message does not always name the literal input. The string
  \<^verbatim>\<open>a b\<close> parses to a URL that is not absolute and prints as \<^verbatim>\<open>a%20b\<close>, and that
  is what the message names.
\<close>

theorem newKeyService_literal_counterexample:
  "url_Parse test_lib ''a b'' = Inr ''a b''
   \<and> \<not> url_IsAbs test_lib ''a b''
   \<and> newKeyService test_lib ''a b'' =
       Inl (ErrorsNew ''keyService URL 'a%20b' is not absolute'')
   \<and> newKeyService test_lib ''a b'' \<noteq>
       Inl (ErrorsNew ''keyService URL 'a b' is not absolute'')"
  by (simp add: newKeyService_def test_lib_fields test_IsAbs_def test_escape_localhost)

text \<open>
  C7. The claim is that a record whose version is a number different from 4 fails with
  "unsupported keystore version". The code compares with 4 what \<^verbatim>\<open>uint(version)\<close>
  makes of the number, and that drops the fraction: the record that is valid but for
  the version 4.5 deserializes, to the worked account, whose version is 4.
\<close>

theorem version_fraction_accepted:
  "(9 / 2 :: rat) \<noteq> 4
   \<and> deserializeAccount test_lib test_wallet (test_record_version (9 / 2)) = Inr test_account
   \<and> version test_account = 4"
proof -
  have "uint_of_float64 test_lib (9 / 2) = 4"
    using uint_of_float64_range [of "9 / 2" test_lib] by simp
  then have "deserializeAccount test_lib test_wallet (test_record_version (9 / 2)) =
      Inr test_account"
    by (rule deserialize_test_record_version [OF exact64_whole(3)])
  then show ?thesis by (simp add: test_account_def)
qed

text \<open>
  C6 (as amended). Take an account whose name is valid UTF-8; whose UUID is valid, in
  that its string form is valid UTF-8 and parses back to it; whose public key is 48
  bytes that are a point of the curve; whose version is 4; and which is bound to a key
  service whose URL has a string form that is valid UTF-8 and parses. Then
  \<^verbatim>\<open>MarshalJSON\<close> succeeds, and \<^verbatim>\<open>UnmarshalJSON\<close> of what it wrote, into any
  receiver, succeeds with an account of the same id, name, public-key bytes and version.
\<close>

theorem MarshalJSON_UnmarshalJSON_roundtrip:
  assumes "ValidString (name a)"
    and "ValidString (uuid_String L (acct_id a))"
    and "uuid_Parse L (uuid_String L (acct_id a)) = Inr (acct_id a)"
    and "publicKey a = Some pk" and "length (Marshal pk) = 48" and "g1_point L (Marshal pk)"
    and "version a = 4"
    and "keyService a = Some ks" and "ValidString (url_String L (URL ks))"
    and "url_Parse L (url_String L (URL ks)) = Inr u"
  shows "\<exists>data b. MarshalJSON L a = Inr data \<and> UnmarshalJSON L a0 data = Inr b
           \<and> acct_id b = acct_id a \<and> name b = name a
           \<and> map_option Marshal (publicKey b) = Some (Marshal pk)
           \<and> version b = version a"
proof -
  let ?kvs = "[(''keyService'', JString (url_String L (URL ks))),
               (''name'', JString (name a)),
               (''pubkey'', JString (Sprintf_x (Marshal pk))),
               (''uuid'', JString (uuid_String L (acct_id a))),
               (''version'', JNumber 4)]"
  let ?data = "JSONText (JObject ?kvs)"
  let ?v = "map_of (rev ?kvs)"
  note kept = json_string_valid [OF assms(1)] json_string_valid [OF assms(2)]
    json_string_valid [OF assms(9)] json_string_Sprintf_x
  have marshal: "MarshalJSON L a = Inr ?data"
    using assms(4,7,8) by (simp add: MarshalJSON_def kept)
  have m: "Unmarshal_map L ?data = Inr ?v"
    by (simp add: Unmarshal_map_def ParseFloat_def exact64_whole kept)
  have idstep: "unmarshal_id L ?v a0 = Inr (a0\<lparr>acct_id := acct_id a\<rparr>)"
    by (rule unmarshal_id_uuid [of _ "uuid_String L (acct_id a)"]) (simp_all add: assms(3))
  have "UnmarshalJSON L a0 ?data =
          Inr (a0\<lparr>acct_id := acct_id a, name := name a,
                   publicKey := Some (BLSPublicKey (Marshal pk)), version := 4,
                   encryptor := Some keystorev4_New, keyService := Some \<lparr>URL = u\<rparr>\<rparr>)"
    using UnmarshalJSON_fields [OF m idstep, of "name a" "Sprintf_x (Marshal pk)" "Marshal pk"
        4 "url_String L (URL ks)" u]
    by (simp add: DecodeString_Sprintf_x assms uint_of_float64_4)
  with marshal show ?thesis
    using assms(7) by simp
qed

theorem MarshalJSON_UnmarshalJSON_roundtrip_witness:
  "ValidString (name test_account)
   \<and> ValidString (uuid_String test_lib (acct_id test_account))
   \<and> uuid_Parse test_lib (uuid_String test_lib (acct_id test_account)) =
       Inr (acct_id test_account)
   \<and> publicKey test_account = Some (BLSPublicKey test_pubkey_bytes)
   \<and> length (Marshal (BLSPublicKey test_pubkey_bytes)) = 48
   \<and> g1_point test_lib (Marshal (BLSPublicKey test_pubkey_bytes))
   \<and> version test_account = 4
   \<and> keyService test_account = Some \<lparr>URL = ''http://localhost:8080''\<rparr>
   \<and> ValidString (url_String test_lib ''http://localhost:8080'')
   \<and> url_Parse test_lib (url_String test_lib ''http://localhost:8080'')
       = Inr ''http://localhost:8080''
   \<and> (\<exists>data b. MarshalJSON test_lib test_account = Inr data
         \<and> UnmarshalJSON test_lib newAccount data = Inr b
         \<and> acct_id b = test_uuid \<and> name b = ''Account 1''
         \<and> map_option Marshal (publicKey b) = Some test_pubkey_bytes
         \<and> version b = 4)"
proof -
  have acct: "acct_id test_account = test_uuid" "name test_account = ''Account 1''"
    by (simp_all add: test_account_def)
  have h0: "ValidString (name test_account)"
    by (simp add: acct)
  have h1: "ValidString (uuid_String test_lib (acct_id test_account))"
    by (rule ValidString_ascii) (simp add: acct test_lib_fields test_uuid_string_def)
  have h2: "uuid_Parse test_lib (uuid_String test_lib (acct_id test_account)) =
      Inr (acct_id test_account)"
    by (simp add: acct test_lib_fields)
  have h3: "publicKey test_account = Some (BLSPublicKey test_pubkey_bytes)"
    by (simp add: test_account_def)
  have h4: "length (Marshal (BLSPublicKey test_pubkey_bytes)) = 48"
    by (simp add: length_test_pubkey)
  have h5: "g1_point test_lib (Marshal (BLSPublicKey test_pubkey_bytes))"
    by (simp add: test_lib_fields)
  have h6: "version test_account = 4"
    by (simp add: test_account_def)
  have h7: "keyService test_account = Some \<lparr>URL = ''http://localhost:8080''\<rparr>"
    by (simp add: test_account_def)
  have h8: "ValidString (url_String test_lib (URL \<lparr>URL = ''http://localhost:8080''\<rparr>))"
    by (simp add: test_lib_fields test_escape_localhost)
  have h9: "url_Parse test_lib (url_String test_lib (URL \<lparr>URL = ''http://localhost:8080''\<rparr>))
      = Inr ''http://localhost:8080''"
    by (simp add: test_lib_fields test_escape_localhost)
  show ?thesis
    using MarshalJSON_UnmarshalJSON_roundtrip [OF h0 h1 h2 h3 h4 h5 h6 h7 h8 h9, of newAccount]
      h0 h1 h2 h3 h4 h5 h6 h7 h8 h9
    by (simp add: acct)
qed

text \<open>
  C6 as stated fails for a name that is not valid UTF-8. The worked account under the
  name of the bytes \<^verbatim>\<open>41 FF 42\<close> is written with U+FFFD in the place of \<^verbatim>\<open>FF\<close>, and
  the account read back has the name of the bytes \<^verbatim>\<open>41 EF BF BD 42\<close>.
\<close>

theorem roundtrip_name_counterexample:
  "name test_account_badname = [CHR 0x41, CHR 0xFF, CHR 0x42]
   \<and> MarshalJSON test_lib test_account_badname = Inr test_record_badname
   \<and> UnmarshalJSON test_lib newAccount test_record_badname =
       Inr (newAccount\<lparr>acct_id := test_uuid,
              name := [CHR 0x41, CHR 0xEF, CHR 0xBF, CHR 0xBD, CHR 0x42],
              publicKey := Some (BLSPublicKey test_pubkey_bytes), version := 4,
              encryptor := Some keystorev4_New,
              keyService := Some \<lparr>URL = ''http://localhost:8080''\<rparr>\<rparr>)"
proof -
  let ?v = "map_of
       [(''version'', JNumber 4), (''uuid'', JString test_uuid_string),
        (''pubkey'', JString test_pubkey_hex),
        (''name'', JString [CHR 0x41, CHR 0xEF, CHR 0xBF, CHR 0xBD, CHR 0x42]),
        (''keyService'', JString ''http://localhost:8080'')]"
  have written: "MarshalJSON test_lib test_account_badname = Inr test_record_badname"
    by (simp add: MarshalJSON_def test_account_badname_def test_account_def
        test_record_badname_def test_lib_fields test_escape_localhost rune_size.simps
        between_def json_string_test_uuid json_string_test_pubkey_hex
        Sprintf_x_test_pubkey)
  have m: "Unmarshal_map test_lib test_record_badname = Inr ?v"
    by (simp add: Unmarshal_map_def test_record_badname_def ParseFloat_def exact64_whole
        rune_size.simps between_def json_string_test_uuid json_string_test_pubkey_hex)
  have idstep: "unmarshal_id test_lib ?v newAccount = Inr (newAccount\<lparr>acct_id := test_uuid\<rparr>)"
    by (rule unmarshal_id_uuid [of _ test_uuid_string]) (simp_all add: test_lib_fields)
  have read: "UnmarshalJSON test_lib newAccount test_record_badname =
       Inr (newAccount\<lparr>acct_id := test_uuid,
              name := [CHR 0x41, CHR 0xEF, CHR 0xBF, CHR 0xBD, CHR 0x42],
              publicKey := Some (BLSPublicKey test_pubkey_bytes), version := 4,
              encryptor := Some keystorev4_New,
              keyService := Some \<lparr>URL = ''http://localhost:8080''\<rparr>\<rparr>)"
    using UnmarshalJSON_fields [OF m idstep,
        of "[CHR 0x41, CHR 0xEF, CHR 0xBF, CHR 0xBD, CHR 0x42]" test_pubkey_hex
        test_pubkey_bytes 4 "''http://localhost:8080''" "''http://localhost:8080''"]
    by (simp add: DecodeString_test_pubkey length_test_pubkey test_lib_fields
        uint_of_float64_4)
  from written read show ?thesis
    by (simp add: test_account_badname_def)
qed




end
